theory Spec2Isabelle
  imports Complex_Main
begin

section \<open>Status values\<close>

text \<open>
  Modelled from the spec: the \<^verbatim>\<open>STATUS\<close> enumeration of \<^verbatim>\<open>qywps.app.WPSResponse\<close>,
  which the executor imports and which is not among the sources. The spec (section 6)
  gives the order ACCEPTED < STARTED < STORE_STATUS < STORE_AND_UPDATE_STATUS <
  DONE_STATUS = DONE < ERROR, with \<open>status >= STORE_STATUS\<close> for a response that is
  persisted and \<open>== STORE_AND_UPDATE_STATUS\<close> for fire-and-forget; its data model lists
  the record statuses ACCEPTED, STARTED, PAUSED, DONE, ERROR, with DONE and ERROR
  terminal. PAUSED, which the ordered list leaves out, stands where the data model lists
  it, after STARTED and below DONE. The executor names \<^verbatim>\<open>STORE_STATUS\<close>,
  \<^verbatim>\<open>STORE_AND_UPDATE_STATUS\<close>, \<^verbatim>\<open>DONE_STATUS\<close> and \<^verbatim>\<open>ERROR_STATUS\<close>; those four
  members carry the executor's names, the other three the spec's.
\<close>

datatype STATUS =
    ACCEPTED
  | STARTED
  | PAUSED
  | STORE_STATUS
  | STORE_AND_UPDATE_STATUS
  | DONE_STATUS
  | ERROR_STATUS

fun STATUS_value :: "STATUS \<Rightarrow> nat" where
  "STATUS_value ACCEPTED = 0"
| "STATUS_value STARTED = 1"
| "STATUS_value PAUSED = 2"
| "STATUS_value STORE_STATUS = 3"
| "STATUS_value STORE_AND_UPDATE_STATUS = 4"
| "STATUS_value DONE_STATUS = 5"
| "STATUS_value ERROR_STATUS = 6"

fun STATUS_name :: "STATUS \<Rightarrow> string" where
  "STATUS_name ACCEPTED = ''ACCEPTED''"
| "STATUS_name STARTED = ''STARTED''"
| "STATUS_name PAUSED = ''PAUSED''"
| "STATUS_name STORE_STATUS = ''STORE_STATUS''"
| "STATUS_name STORE_AND_UPDATE_STATUS = ''STORE_AND_UPDATE_STATUS''"
| "STATUS_name DONE_STATUS = ''DONE_STATUS''"
| "STATUS_name ERROR_STATUS = ''ERROR_STATUS''"

definition STATUS_members :: "STATUS list" where
  "STATUS_members =
     [ACCEPTED, STARTED, PAUSED, STORE_STATUS, STORE_AND_UPDATE_STATUS,
      DONE_STATUS, ERROR_STATUS]"

datatype error = KeyError | FileNotFoundError string

text \<open>\<^verbatim>\<open>STATUS[name]\<close>: the member of that name, \<^verbatim>\<open>KeyError\<close> when there is none.\<close>

definition STATUS_getitem :: "string \<Rightarrow> error + STATUS" where
  "STATUS_getitem name =
     (case find (\<lambda>s. STATUS_name s = name) STATUS_members of
        None \<Rightarrow> Inl KeyError
      | Some s \<Rightarrow> Inr s)"

section \<open>Status records, the status store and the working directories\<close>

text \<open>
  A status record is a Python dict. The executor reads the keys below; \<^verbatim>\<open>rec.get(key)\<close>
  gives \<^verbatim>\<open>None\<close> for a key that is absent, so every key but \<^verbatim>\<open>uuid\<close> is optional
  (\<open>None\<close>: the key is absent). \<^verbatim>\<open>status\<close> holds the member's name. Times are Python
  numbers (\<^verbatim>\<open>datetime.utcnow().timestamp()\<close> is a float, and the source applies
  \<^verbatim>\<open>int(...)\<close> to the record's timestamp); they are modelled as rationals.
\<close>

record status_record =
  rec_uuid :: string
  rec_status :: "string option"
  rec_timestamp :: "rat option"
  rec_timeout :: "rat option"
  rec_expiration :: "rat option"
  rec_pinned :: "bool option"

text \<open>Python's \<^verbatim>\<open>int(x)\<close> on a number: truncation towards zero.\<close>

definition py_int :: "rat \<Rightarrow> int" where
  "py_int x = (if 0 \<le> x then \<lfloor>x\<rfloor> else \<lceil>x\<rceil>)"

text \<open>\<^verbatim>\<open>STATUS[rec['status']]\<close>: \<^verbatim>\<open>KeyError\<close> for a record without the key and for a
  name that is no member.\<close>

definition record_STATUS :: "status_record \<Rightarrow> error + STATUS" where
  "record_STATUS rec =
     (case rec_status rec of
        None \<Rightarrow> Inl KeyError
      | Some name \<Rightarrow> STATUS_getitem name)"

text \<open>
  Modelled from the spec: the status store behind the abstract \<^verbatim>\<open>LOGStore\<close> (its
  backends are not among the sources). \<^verbatim>\<open>get_status(uuid)\<close> returns one record or
  \<^verbatim>\<open>None\<close>, \<^verbatim>\<open>delete_response(uuid)\<close> removes the record and is idempotent, and
  \<^verbatim>\<open>records\<close> is a snapshot of (uuid, record) pairs.
\<close>

type_synonym logstore = "(string \<times> status_record) list"

definition get_status :: "logstore \<Rightarrow> string \<Rightarrow> status_record option" where
  "get_status store u = map_of store u"

definition delete_response :: "string \<Rightarrow> logstore \<Rightarrow> logstore" where
  "delete_response u store = filter (\<lambda>kv. fst kv \<noteq> u) store"

definition records :: "logstore \<Rightarrow> (string \<times> status_record) list" where
  "records store = store"

text \<open>
  The \<^verbatim>\<open>server\<close> section of the configuration: \<^verbatim>\<open>workdir\<close> (taken as the absolute,
  normalised path that \<^verbatim>\<open>os.path.abspath\<close> returns) and \<^verbatim>\<open>response_expiration\<close>
  (read with \<^verbatim>\<open>getint\<close>).
\<close>

record server_config =
  cfg_workdir :: string
  cfg_response_expiration :: int

text \<open>\<^verbatim>\<open>os.path.join(a, b)\<close> on POSIX for two components.\<close>

definition path_join :: "string \<Rightarrow> string \<Rightarrow> string" where
  "path_join a b =
     (if b \<noteq> [] \<and> hd b = CHR ''/'' then b
      else if a = [] \<or> last a = CHR ''/'' then a @ b
      else a @ ''/'' @ b)"

text \<open>
  The state the executor acts on: the status store and the set of directories that exist.
  \<^verbatim>\<open>shutil.rmtree\<close> removes a directory with all it holds; the model tracks the working
  directories as units and takes the removal of an existing directory to succeed (the
  \<^verbatim>\<open>except\<close> branch around it only logs).
\<close>

record state =
  logstore :: logstore
  dirs :: "string set"

definition remove_workdir :: "string \<Rightarrow> state \<Rightarrow> state" where
  "remove_workdir workdir st =
     (if workdir \<in> dirs st then st\<lparr>dirs := dirs st - {workdir}\<rparr> else st)"

text \<open>The shared tail of \<^verbatim>\<open>delete_results\<close> and of the cleanup loop's body: remove
  \<^verbatim>\<open>os.path.join(rootdir, rec['uuid'])\<close>, then \<^verbatim>\<open>delete_response(rec['uuid'])\<close>.\<close>

definition delete_record :: "server_config \<Rightarrow> status_record \<Rightarrow> state \<Rightarrow> state" where
  "delete_record cfg rec st =
     (let rootdir = cfg_workdir cfg;
          uuid_str = rec_uuid rec;
          workdir = path_join rootdir uuid_str;
          st1 = remove_workdir workdir st
      in st1\<lparr>logstore := delete_response uuid_str (logstore st1)\<rparr>)"

subsection \<open>\<^verbatim>\<open>PoolExecutor.delete_results\<close>\<close>

definition delete_results :: "server_config \<Rightarrow> string \<Rightarrow> state \<Rightarrow> error + (bool \<times> state)" where
  "delete_results cfg u st =
     (case get_status (logstore st) u of
        None \<Rightarrow> Inl (FileNotFoundError u)
      | Some rec \<Rightarrow>
          (case record_STATUS rec of
             Inr s \<Rightarrow>
               if STATUS_value s < STATUS_value DONE_STATUS then Inr (False, st)
               else Inr (True, delete_record cfg rec st)
           | Inl _ \<Rightarrow> Inr (True, delete_record cfg rec st)))"

subsection \<open>\<^verbatim>\<open>PoolExecutor._clean_processes\<close>\<close>

text \<open>
  The \<^verbatim>\<open>try\<close> block of the loop body. \<open>None\<close> is the \<^verbatim>\<open>continue\<close>; otherwise the value
  of \<^verbatim>\<open>dangling\<close> on leaving the block. The status is read only when the timestamp is
  present (\<^verbatim>\<open>not dangling and ...\<close>), and a \<^verbatim>\<open>KeyError\<close> leaves \<^verbatim>\<open>dangling\<close> as it was.
\<close>

definition dangling_check :: "rat \<Rightarrow> status_record \<Rightarrow> bool option" where
  "dangling_check now_ts rec =
     (case rec_timestamp rec of
        None \<Rightarrow> Some True
      | Some timestamp \<Rightarrow>
          (case record_STATUS rec of
             Inl _ \<Rightarrow> Some False
           | Inr s \<Rightarrow>
               if STATUS_value s < STATUS_value DONE_STATUS then
                 (let dangling =
                        (case rec_timeout rec of
                           None \<Rightarrow> True
                         | Some timeout \<Rightarrow> now_ts - of_int (py_int timestamp) \<ge> timeout)
                  in if \<not> dangling then None else Some dangling)
               else Some False))"

text \<open>\<^verbatim>\<open>(now_ts - int(timestamp)) >= expiration\<close>. It is evaluated only when \<^verbatim>\<open>dangling\<close>
  is false, and then the timestamp is present.\<close>

definition past_expiration :: "rat \<Rightarrow> rat \<Rightarrow> status_record \<Rightarrow> bool" where
  "past_expiration now_ts expiration rec =
     (case rec_timestamp rec of
        None \<Rightarrow> False
      | Some timestamp \<Rightarrow> now_ts - of_int (py_int timestamp) \<ge> expiration)"

definition clean_record :: "server_config \<Rightarrow> rat \<Rightarrow> status_record \<Rightarrow> state \<Rightarrow> state" where
  "clean_record cfg now_ts rec st =
     (case dangling_check now_ts rec of
        None \<Rightarrow> st
      | Some dangling \<Rightarrow>
          (let expire_default = cfg_response_expiration cfg;
               expiration = (case rec_expiration rec of
                               None \<Rightarrow> of_int expire_default
                             | Some e \<Rightarrow> e);
               notpinned = \<not> (case rec_pinned rec of None \<Rightarrow> False | Some p \<Rightarrow> p)
           in if notpinned \<and> (dangling \<or> past_expiration now_ts expiration rec)
              then delete_record cfg rec st
              else st))"

definition clean_processes :: "server_config \<Rightarrow> rat \<Rightarrow> state \<Rightarrow> state" where
  "clean_processes cfg now_ts st =
     fold (\<lambda>kv. clean_record cfg now_ts (snd kv)) (records (logstore st)) st"

section \<open>The cleanup rule, stated on a record\<close>

text \<open>The working directory of a record: \<^verbatim>\<open>os.path.join(rootdir, rec['uuid'])\<close>.\<close>

definition workdir_of :: "server_config \<Rightarrow> status_record \<Rightarrow> string" where
  "workdir_of cfg rec = path_join (cfg_workdir cfg) (rec_uuid rec)"

text \<open>A record is in flight when its status names a member strictly below
  \<^verbatim>\<open>DONE_STATUS\<close>; a record without a status, or with a name that is no member, is not.\<close>

definition in_flight :: "status_record \<Rightarrow> bool" where
  "in_flight rec =
     (case record_STATUS rec of
        Inl _ \<Rightarrow> False
      | Inr s \<Rightarrow> STATUS_value s < STATUS_value DONE_STATUS)"

definition is_pinned :: "status_record \<Rightarrow> bool" where
  "is_pinned rec = (rec_pinned rec = Some True)"

text \<open>The retention of a record: its own \<^verbatim>\<open>expiration\<close> when it has one, the configured
  \<^verbatim>\<open>response_expiration\<close> otherwise.\<close>

definition retention :: "server_config \<Rightarrow> status_record \<Rightarrow> rat" where
  "retention cfg rec =
     (case rec_expiration rec of
        None \<Rightarrow> of_int (cfg_response_expiration cfg)
      | Some e \<Rightarrow> e)"

text \<open>Dangling and expired, with the age of a record counted from its timestamp truncated
  to whole seconds.\<close>

definition is_dangling :: "rat \<Rightarrow> status_record \<Rightarrow> bool" where
  "is_dangling now rec =
     (case rec_timestamp rec of
        None \<Rightarrow> True
      | Some ts \<Rightarrow>
          in_flight rec \<and>
          (case rec_timeout rec of
             None \<Rightarrow> True
           | Some t \<Rightarrow> now - of_int (py_int ts) \<ge> t))"

definition is_expired :: "server_config \<Rightarrow> rat \<Rightarrow> status_record \<Rightarrow> bool" where
  "is_expired cfg now rec =
     (case rec_timestamp rec of
        None \<Rightarrow> False
      | Some ts \<Rightarrow> now - of_int (py_int ts) \<ge> retention cfg rec)"

text \<open>The rule the loop body follows: an unpinned record goes when it is dangling, or when
  it is expired and not in flight.\<close>

definition cleanup_deletes :: "server_config \<Rightarrow> rat \<Rightarrow> status_record \<Rightarrow> bool" where
  "cleanup_deletes cfg now rec =
     (\<not> is_pinned rec \<and> (is_dangling now rec \<or> (is_expired cfg now rec \<and> \<not> in_flight rec)))"

text \<open>A store as the backends keep it: one record per uuid, filed under its own uuid, and
  no two records with the same working directory.\<close>

definition store_ok :: "server_config \<Rightarrow> logstore \<Rightarrow> bool" where
  "store_ok cfg store =
     (distinct (map fst store) \<and>
      (\<forall>kv \<in> set store. rec_uuid (snd kv) = fst kv) \<and>
      inj_on (\<lambda>kv. workdir_of cfg (snd kv)) (set store))"

text \<open>The rule as the spec words it (section 4.5): ages counted from the timestamp itself,
  \<open>dangling OR expired\<close> for every unpinned record.\<close>

definition spec_dangling :: "rat \<Rightarrow> status_record \<Rightarrow> bool" where
  "spec_dangling now rec =
     (case rec_timestamp rec of
        None \<Rightarrow> True
      | Some ts \<Rightarrow>
          in_flight rec \<and>
          (case rec_timeout rec of None \<Rightarrow> True | Some t \<Rightarrow> now - ts \<ge> t))"

definition spec_expired :: "int \<Rightarrow> rat \<Rightarrow> status_record \<Rightarrow> bool" where
  "spec_expired default_response_expiration now rec =
     (case rec_timestamp rec of
        None \<Rightarrow> False
      | Some ts \<Rightarrow>
          now - ts \<ge> (case rec_expiration rec of
                         None \<Rightarrow> of_int default_response_expiration
                       | Some e \<Rightarrow> e))"

definition spec_deletes :: "int \<Rightarrow> rat \<Rightarrow> status_record \<Rightarrow> bool" where
  "spec_deletes default_response_expiration now rec =
     (rec_pinned rec \<noteq> Some True \<and>
      (spec_dangling now rec \<or> spec_expired default_response_expiration now rec))"

section \<open>The supervisor channel: the worker-side notifier\<close>

text \<open>
  \<^verbatim>\<open>Client\<close> of \<^verbatim>\<open>poolserver/supervisor.py\<close>. A frame is \<^verbatim>\<open>[str(pid).encode(), data]\<close>,
  modelled as the pid with the verb's bytes. \<open>cl_sock\<close> holds the frames handed to
  \<^verbatim>\<open>send_multipart\<close>, oldest first; whether ZeroMQ delivers a frame (\<^verbatim>\<open>DONTWAIT\<close>, no
  queueing without a connection) is outside the client, and \<^verbatim>\<open>_send\<close> swallows the error.
\<close>

type_synonym frame = "int \<times> string"

record client =
  cl_pid :: int
  cl_busy :: bool
  cl_sock :: "frame list"


definition send :: "string \<Rightarrow> client \<Rightarrow> client" where
  "send data c = c\<lparr>cl_sock := cl_sock c @ [(cl_pid c, data)]\<rparr>"

definition notify_done :: "client \<Rightarrow> client" where
  "notify_done c = (if cl_busy c then send ''DONE'' (c\<lparr>cl_busy := False\<rparr>) else c)"

definition notify_busy :: "client \<Rightarrow> client" where
  "notify_busy c = (if \<not> cl_busy c then send ''BUSY'' (c\<lparr>cl_busy := True\<rparr>) else c)"

text \<open>Any sequence of calls on one notifier.\<close>

datatype notify_call = Notify_busy | Notify_done

fun notify :: "notify_call \<Rightarrow> client \<Rightarrow> client" where
  "notify Notify_busy c = notify_busy c"
| "notify Notify_done c = notify_done c"




section \<open>The supervisor controller\<close>

text \<open>
  \<^verbatim>\<open>Supervisor\<close> of \<^verbatim>\<open>poolserver/supervisor.py\<close>. \<^verbatim>\<open>self._busy\<close> is a dict from pid to the
  handle \<^verbatim>\<open>loop.call_later\<close> returned. The event loop keeps every scheduled handle until
  it has run or was cancelled, whoever still refers to it: \<open>sv_scheduled\<close> is the loop's
  list of handles for the callback \<^verbatim>\<open>kill(pid)\<close>, in the order they were scheduled, and a
  handle is named by its position in it. \<open>sv_time\<close> is the loop's clock and \<open>sv_killed\<close>
  the calls of \<^verbatim>\<open>killfunc\<close> with the time they were made.
\<close>

record timer_handle =
  th_when :: rat
  th_pid :: int
  th_cancelled :: bool
  th_done :: bool

record supervisor =
  sv_timeout :: int
  sv_busy :: "int \<rightharpoonup> nat"
  sv_scheduled :: "timer_handle list"
  sv_time :: rat
  sv_killed :: "(rat \<times> int) list"

definition Supervisor_init :: "int \<Rightarrow> supervisor" where
  "Supervisor_init timeout =
     \<lparr>sv_timeout = timeout, sv_busy = Map.empty, sv_scheduled = [], sv_time = 0,
      sv_killed = []\<rparr>"

text \<open>\<^verbatim>\<open>loop.call_later(self._timeout, kill, pid)\<close>: a new handle, due \<^verbatim>\<open>timeout\<close> seconds
  from now.\<close>

definition call_later :: "int \<Rightarrow> supervisor \<Rightarrow> nat \<times> supervisor" where
  "call_later pid s =
     (length (sv_scheduled s),
      s\<lparr>sv_scheduled := sv_scheduled s @
           [\<lparr>th_when = sv_time s + of_int (sv_timeout s), th_pid = pid,
             th_cancelled = False, th_done = False\<rparr>]\<rparr>)"

text \<open>\<^verbatim>\<open>handle.cancel()\<close>.\<close>

definition cancel :: "nat \<Rightarrow> supervisor \<Rightarrow> supervisor" where
  "cancel h s =
     (if h < length (sv_scheduled s)
      then s\<lparr>sv_scheduled := (sv_scheduled s)[h := (sv_scheduled s ! h)\<lparr>th_cancelled := True\<rparr>]\<rparr>
      else s)"

text \<open>The callback \<^verbatim>\<open>kill(pid)\<close>: \<^verbatim>\<open>del self._busy[pid]\<close>, then \<^verbatim>\<open>self._killfunc(pid)\<close>. The
  \<^verbatim>\<open>del\<close> raises \<^verbatim>\<open>KeyError\<close> when the pid has no entry; the exception ends the callback
  (the loop logs it) before \<^verbatim>\<open>killfunc\<close> is reached.\<close>

definition kill :: "int \<Rightarrow> supervisor \<Rightarrow> supervisor" where
  "kill pid s =
     (case sv_busy s pid of
        None \<Rightarrow> s
      | Some _ \<Rightarrow> s\<lparr>sv_busy := (sv_busy s)(pid := None),
                     sv_killed := sv_killed s @ [(sv_time s, pid)]\<rparr>)"

text \<open>The body of the receive loop for one frame \<^verbatim>\<open>(pid, notif)\<close>. On \<^verbatim>\<open>BUSY\<close> the new
  handle is stored under the pid; the handle the entry held before, if any, is not
  cancelled. On \<^verbatim>\<open>DONE\<close>, \<^verbatim>\<open>self._busy.pop(pid).cancel()\<close>, with the \<^verbatim>\<open>KeyError\<close> of an
  unknown pid passed over. Any other verb changes nothing.\<close>

definition on_frame :: "frame \<Rightarrow> supervisor \<Rightarrow> supervisor" where
  "on_frame f s =
     (let pid = fst f; notif = snd f in
      if notif = ''BUSY'' then
        (let (h, s1) = call_later pid s in s1\<lparr>sv_busy := (sv_busy s1)(pid \<mapsto> h)\<rparr>)
      else if notif = ''DONE'' then
        (case sv_busy s pid of
           None \<Rightarrow> s
         | Some h \<Rightarrow> cancel h (s\<lparr>sv_busy := (sv_busy s)(pid := None)\<rparr>))
      else s)"

text \<open>The event loop runs a handle when it is due, unless it was cancelled or has run.\<close>

definition run_handle :: "nat \<Rightarrow> supervisor \<Rightarrow> supervisor" where
  "run_handle h s =
     (if h < length (sv_scheduled s) then
        (let t = sv_scheduled s ! h in
         if th_cancelled t \<or> th_done t then s
         else kill (th_pid t)
                (s\<lparr>sv_scheduled := (sv_scheduled s)[h := t\<lparr>th_done := True\<rparr>],
                   sv_time := max (sv_time s) (th_when t)\<rparr>))
      else s)"

text \<open>No frame arrives until time \<open>t\<close>: the loop runs the handles due by then, oldest first
  (all handles have the same delay, so that is the order of their deadlines).\<close>

definition sleep_until :: "rat \<Rightarrow> supervisor \<Rightarrow> supervisor" where
  "sleep_until t s =
     (let due = filter (\<lambda>h. th_when (sv_scheduled s ! h) \<le> t) [0..<length (sv_scheduled s)];
          s1 = fold run_handle due s
      in s1\<lparr>sv_time := max (sv_time s1) t\<rparr>)"

datatype loop_event = Recv frame | Sleep_until rat

fun loop_step :: "loop_event \<Rightarrow> supervisor \<Rightarrow> supervisor" where
  "loop_step (Recv f) s = on_frame f s"
| "loop_step (Sleep_until t) s = sleep_until t s"

definition run_loop :: "loop_event list \<Rightarrow> supervisor \<Rightarrow> supervisor" where
  "run_loop evs s = fold loop_step evs s"

text \<open>The kill-timers pending for a pid: the handles for it that the loop will still run.\<close>

definition pending :: "int \<Rightarrow> supervisor \<Rightarrow> nat list" where
  "pending pid s =
     filter (\<lambda>h. th_pid (sv_scheduled s ! h) = pid \<and>
                 \<not> th_cancelled (sv_scheduled s ! h) \<and> \<not> th_done (sv_scheduled s ! h))
       [0..<length (sv_scheduled s)]"

section \<open>The execution envelope of a worker\<close>

text \<open>
  The exception classes the executor tells apart: \<^verbatim>\<open>ProcessException\<close> (the domain error,
  with its message), \<^verbatim>\<open>asyncio.TimeoutError\<close> (\<open>TimeoutError\<close>), and any other.
\<close>

datatype exn = ProcessException string | TimeoutError | OtherException string

text \<open>The response document: the lxml tree, or the bytes \<^verbatim>\<open>lxml.etree.tostring\<close> makes of it.\<close>

datatype document = Tree string | Bytes string

definition tostring :: "document \<Rightarrow> document" where
  "tostring d = (case d of Tree x \<Rightarrow> Bytes x | Bytes x \<Rightarrow> Bytes x)"

record request =
  req_timeout :: rat
  req_payload :: string

record response =
  resp_uuid :: string
  resp_workdir :: string
  resp_status :: STATUS
  resp_store :: bool
  resp_document :: document

datatype signal = SIGABRT

text \<open>
  What a process does, in the order it does it. \<open>Update_status\<close> is a call of
  \<^verbatim>\<open>wps_response.update_status(message, status_percentage, status)\<close> with its arguments, an
  argument left out being \<open>None\<close> (\<^verbatim>\<open>WPSResponse\<close> is not among the sources; the model
  records the call). \<open>Timer_start t a\<close> is
  \<^verbatim>\<open>Timer(t, _timeout_kill, args=(wps_response, a)).start()\<close>.
\<close>

datatype action =
    Chdir string
  | Update_status string "int option" "STATUS option"
  | Timer_start rat bool
  | Timer_cancel
  | Call_handler
  | Etree_tostring
  | Log_error string
  | Os_kill signal
  | Log_request string

text \<open>
  A handler is user code: it changes the response and then returns, raises, or is still
  running when the timer of the envelope fires (\<open>Hangs\<close>).
\<close>

datatype handler_end = Returns | Raises exn | Hangs

type_synonym handler = "request \<Rightarrow> response \<Rightarrow> response \<times> handler_end"

text \<open>How \<^verbatim>\<open>_run_process\<close> ends: it returns (the response, or \<^verbatim>\<open>None\<close>), raises, or its
  process is killed by a signal.\<close>

datatype run_result = Return "response option" | Raise exn | Killed signal

subsection \<open>\<^verbatim>\<open>_timeout_kill\<close>\<close>

definition timeout_kill :: "response \<Rightarrow> bool \<Rightarrow> action list" where
  "timeout_kill response is_async =
     [Log_error ''Timeout occured in worker process'',
      Update_status ''Timeout Error'' None (Some ERROR_STATUS),
      Os_kill SIGABRT]"

subsection \<open>\<^verbatim>\<open>PoolExecutor._run_process\<close>\<close>

text \<open>
  The actions of the worker and the way the call ends. The \<^verbatim>\<open>finally\<close> clause cancels the
  timer however the \<^verbatim>\<open>try\<close> block is left; a \<^verbatim>\<open>ProcessException\<close> is raised again only
  when \<^verbatim>\<open>is_async\<close> is false, and the code after the \<^verbatim>\<open>try\<close> statement (the
  serialisation) runs only when no exception leaves it. The context managers around the
  handler only log and are left out.
\<close>

definition run_process ::
  "handler \<Rightarrow> request \<Rightarrow> response \<Rightarrow> bool \<Rightarrow> rat \<Rightarrow> action list \<times> run_result" where
  "run_process handler wps_request wps_response is_async timeout =
     (let workdir = resp_workdir wps_response;
          before = [Chdir workdir,
                    Update_status ''Task started'' (Some 0) None,
                    Timer_start timeout is_async,
                    Call_handler]
      in case handler wps_request wps_response of
           (r, Hangs) \<Rightarrow> (before @ timeout_kill r is_async, Killed SIGABRT)
         | (r, Returns) \<Rightarrow>
             (let done = before @ [Update_status ''Task finished'' (Some 100) (Some DONE_STATUS),
                                   Timer_cancel]
              in if \<not> is_async
                 then (done @ [Etree_tostring],
                       Return (Some (r\<lparr>resp_document := tostring (resp_document r)\<rparr>)))
                 else (done, Return None))
         | (r, Raises (ProcessException e)) \<Rightarrow>
             (let failed = before @ [Update_status e None (Some ERROR_STATUS)]
              in if \<not> is_async
                 then (failed @ [Timer_cancel], Raise (ProcessException e))
                 else (failed @ [Timer_cancel], Return None))
         | (r, Raises e) \<Rightarrow> (before @ [Timer_cancel], Raise e))"

text \<open>\<open>a\<close> occurs in \<open>xs\<close>, and \<open>b\<close> occurs after the first \<open>a\<close>.\<close>

definition precedes :: "'a \<Rightarrow> 'a \<Rightarrow> 'a list \<Rightarrow> bool" where
  "precedes a b xs = (a \<in> set xs \<and> b \<in> set (tl (dropWhile (\<lambda>x. x \<noteq> a) xs)))"

section \<open>\<^verbatim>\<open>PoolExecutor.execute\<close>\<close>

text \<open>
  The future the synchronous path waits on, as \<^verbatim>\<open>asyncio.wait_for(future, timeout)\<close> finds
  it when it ends: still pending, resolved with a result, or resolved with an exception.
\<close>

datatype 'a future = Pending | Result 'a | Exception exn

text \<open>What \<^verbatim>\<open>execute\<close> raises: its own \<^verbatim>\<open>NoApplicableCode(message, code=...)\<close>, or an
  exception of the awaited future that no \<^verbatim>\<open>except\<close> clause catches.\<close>

datatype execute_error = NoApplicableCode string nat | Uncaught exn

text \<open>The error callback of the synchronous path, up to \<^verbatim>\<open>future.set_exception(exc)\<close>.\<close>

definition on_error :: "exn \<Rightarrow> action list" where
  "on_error exc =
     (case exc of
        ProcessException _ \<Rightarrow> []
      | _ \<Rightarrow> [Log_error ''Uncaught Process Exception'',
               Update_status ''Internal error'' None (Some ERROR_STATUS)])"

text \<open>
  \<^verbatim>\<open>self._pool.apply_async(self._run_process, ..., callback=success_cbk,
  error_callback=_on_error)\<close>: the pool calls \<^verbatim>\<open>success_cbk\<close> with what the worker returned
  or \<^verbatim>\<open>_on_error\<close> with what it raised, and neither when the worker was killed.
  \<open>in_time\<close> says whether that call comes before the timeout of \<^verbatim>\<open>wait_for\<close> runs
  out (a task may wait in the pool's queue). The result is the actions of the callback and
  the future as \<^verbatim>\<open>wait_for\<close> finds it.
\<close>

definition apply_async_sync ::
  "run_result \<Rightarrow> bool \<Rightarrow> action list \<times> response option future" where
  "apply_async_sync res in_time =
     (if \<not> in_time then ([], Pending)
      else case res of
             Return r \<Rightarrow> ([], Result r)
           | Raise exc \<Rightarrow> (on_error exc, Exception exc)
           | Killed _ \<Rightarrow> ([], Pending))"

text \<open>\<^verbatim>\<open>await asyncio.wait_for(future, timeout)\<close>: the result of the future, its exception,
  or \<^verbatim>\<open>asyncio.TimeoutError\<close> when it is still pending.\<close>

definition wait_for :: "'a future \<Rightarrow> exn + 'a" where
  "wait_for fut =
     (case fut of
        Pending \<Rightarrow> Inl TimeoutError
      | Result r \<Rightarrow> Inr r
      | Exception exc \<Rightarrow> Inl exc)"

text \<open>\<^verbatim>\<open>wps_response.store = (wps_response.status >= STATUS.STORE_STATUS)\<close>.\<close>

definition set_store :: "response \<Rightarrow> response" where
  "set_store wps_response =
     wps_response\<lparr>resp_store :=
       (STATUS_value (resp_status wps_response) \<ge> STATUS_value STORE_STATUS)\<rparr>"

text \<open>The submission of the synchronous path, with \<^verbatim>\<open>is_async\<close> false and the request's
  timeout.\<close>

definition sync_submit ::
  "handler \<Rightarrow> bool \<Rightarrow> request \<Rightarrow> response \<Rightarrow> action list \<times> response option future" where
  "sync_submit handler in_time wps_request wps_response =
     apply_async_sync
       (snd (run_process handler wps_request wps_response False (req_timeout wps_request)))
       in_time"

text \<open>
  \<^verbatim>\<open>execute\<close>: the actions of the controlling process until it returns or raises, and
  the response it returns or the error it raises. The pool exists once the executor is
  initialised, so the first branch is taken exactly for \<^verbatim>\<open>STORE_AND_UPDATE_STATUS\<close>; there
  the call returns at once and the worker runs in the background.
\<close>

definition execute ::
  "handler \<Rightarrow> bool \<Rightarrow> request \<Rightarrow> response \<Rightarrow> action list \<times> (execute_error + response option)" where
  "execute handler in_time wps_request wps_response0 =
     (let started = [Log_request (resp_uuid wps_response0)];
          wps_response = set_store wps_response0
      in if resp_status wps_response = STORE_AND_UPDATE_STATUS then
           (started @ [Update_status ''Task accepted'' None None], Inr (Some wps_response))
         else
           (let (cbk, fut) = sync_submit handler in_time wps_request wps_response
            in case wait_for fut of
                 Inl TimeoutError \<Rightarrow> (started @ cbk, Inl (NoApplicableCode ''Execute Timeout'' 424))
               | Inl (ProcessException _) \<Rightarrow>
                   (started @ cbk, Inl (NoApplicableCode ''Process error'' 424))
               | Inl exc \<Rightarrow> (started @ cbk, Inl (Uncaught exc))
               | Inr r \<Rightarrow> (started @ cbk, Inr r)))"

subsection \<open>A request, a response and three handlers\<close>

definition raising_handler :: "exn \<Rightarrow> handler" where
  "raising_handler e wps_request wps_response = (wps_response, Raises e)"

definition returning_handler :: "string \<Rightarrow> handler" where
  "returning_handler out wps_request wps_response =
     (wps_response\<lparr>resp_document := Tree out\<rparr>, Returns)"

definition hanging_handler :: handler where
  "hanging_handler wps_request wps_response = (wps_response, Hangs)"

definition example_request :: request where
  "example_request = \<lparr>req_timeout = 30, req_payload = ''buffer''\<rparr>"

definition example_response :: "STATUS \<Rightarrow> response" where
  "example_response s =
     \<lparr>resp_uuid = ''job'', resp_workdir = ''/srv/wps/job'', resp_status = s,
      resp_store = False, resp_document = Tree ''''\<rparr>"

subsection \<open>A store of three jobs\<close>

definition example_cfg :: server_config where
  "example_cfg = \<lparr>cfg_workdir = ''/srv/wps'', cfg_response_expiration = 86400\<rparr>"

definition example_rec :: "string \<Rightarrow> string \<Rightarrow> status_record" where
  "example_rec u s =
     \<lparr>rec_uuid = u, rec_status = Some s, rec_timestamp = Some 1000,
      rec_timeout = Some 60, rec_expiration = Some 3600, rec_pinned = Some False\<rparr>"

definition example_state :: state where
  "example_state =
     \<lparr>logstore = [(''run'', example_rec ''run'' ''STARTED''),
                  (''done'', example_rec ''done'' ''DONE_STATUS''),
                  (''old'', example_rec ''old'' ''SUCCEEDED'')],
      dirs = {''/srv/wps/run'', ''/srv/wps/done''}\<rparr>"

text \<open>A store that holds one legacy record, with its working directory.\<close>

definition example_legacy_state :: state where
  "example_legacy_state =
     \<lparr>logstore = [(''old'', example_rec ''old'' ''SUCCEEDED'')],
      dirs = {''/srv/wps/old''}\<rparr>"

section \<open>Facts about the store and the loop body\<close>

lemma STATUS_getitem_name: "STATUS_getitem (STATUS_name s) = Inr s"
  by (cases s) (simp_all add: STATUS_getitem_def STATUS_members_def)

lemma set_STATUS_members: "set STATUS_members = UNIV"
proof -
  have "s \<in> set STATUS_members" for s
    by (cases s) (simp_all add: STATUS_members_def)
  then show ?thesis by auto
qed

lemma STATUS_getitem_unknown:
  "(\<forall>s. STATUS_name s \<noteq> name) \<Longrightarrow> STATUS_getitem name = Inl KeyError"
  by (simp add: STATUS_getitem_def find_None_iff[THEN iffD2])

lemma in_flight_cases:
  "in_flight rec \<longleftrightarrow> (\<exists>s. record_STATUS rec = Inr s \<and> STATUS_value s < STATUS_value DONE_STATUS)"
  by (auto simp: in_flight_def split: sum.splits)

lemma get_status_delete_response:
  "get_status (delete_response u store) u = None"
  by (auto simp: get_status_def delete_response_def map_of_eq_None_iff)

lemma get_status_delete_response_other:
  "v \<noteq> u \<Longrightarrow> get_status (delete_response u store) v = get_status store v"
  by (induction store) (auto simp: get_status_def delete_response_def)

lemma logstore_delete_record [simp]:
  "logstore (delete_record cfg rec st) = delete_response (rec_uuid rec) (logstore st)"
  by (simp add: delete_record_def remove_workdir_def Let_def)

lemma dirs_delete_record [simp]:
  "dirs (delete_record cfg rec st) = dirs st - {workdir_of cfg rec}"
  by (auto simp: delete_record_def remove_workdir_def workdir_of_def Let_def)

text \<open>The loop body, one record at a time: it deletes by the rule \<open>cleanup_deletes\<close> and
  does nothing otherwise.\<close>

lemma clean_record_eq:
  "clean_record cfg now rec st =
     (if cleanup_deletes cfg now rec then delete_record cfg rec st else st)"
  by (auto simp: clean_record_def dangling_check_def past_expiration_def cleanup_deletes_def
      is_dangling_def is_expired_def in_flight_def is_pinned_def retention_def Let_def
      split: option.splits sum.splits)

text \<open>The loop over a snapshot, by induction on the snapshot with the state generalised.\<close>

lemma logstore_fold_clean:
  "logstore (fold (\<lambda>kv. clean_record cfg now (snd kv)) xs st) =
     filter (\<lambda>kv. fst kv \<notin> rec_uuid ` {r \<in> snd ` set xs. cleanup_deletes cfg now r}) (logstore st)"
proof (induction xs arbitrary: st)
  case Nil
  show ?case by simp
next
  case (Cons x xs)
  have *: "{r \<in> snd ` set (x # xs). cleanup_deletes cfg now r} =
           (if cleanup_deletes cfg now (snd x) then {snd x} else {}) \<union>
           {r \<in> snd ` set xs. cleanup_deletes cfg now r}"
    by auto
  show ?case
    unfolding fold_simps Cons.IH *
    by (auto simp: clean_record_eq delete_response_def intro!: filter_cong)
qed

lemma dirs_fold_clean:
  "dirs (fold (\<lambda>kv. clean_record cfg now (snd kv)) xs st) =
     dirs st - workdir_of cfg ` {r \<in> snd ` set xs. cleanup_deletes cfg now r}"
proof (induction xs arbitrary: st)
  case Nil
  show ?case by simp
next
  case (Cons x xs)
  show ?case
    unfolding fold_simps Cons.IH
    by (auto simp: clean_record_eq)
qed

lemma store_ok_filter:
  assumes "store_ok cfg store"
  shows "filter (\<lambda>kv. fst kv \<notin> rec_uuid ` {r \<in> snd ` set store. P r}) store =
         filter (\<lambda>kv. \<not> P (snd kv)) store"
proof (rule filter_cong[OF refl])
  fix kv assume kv: "kv \<in> set store"
  from assms have d: "distinct (map fst store)"
    and u: "\<forall>kv \<in> set store. rec_uuid (snd kv) = fst kv"
    by (simp_all add: store_ok_def)
  show "(fst kv \<notin> rec_uuid ` {r \<in> snd ` set store. P r}) = (\<not> P (snd kv))"
  proof
    assume a: "fst kv \<notin> rec_uuid ` {r \<in> snd ` set store. P r}"
    show "\<not> P (snd kv)"
    proof
      assume "P (snd kv)"
      with kv u have "fst kv \<in> rec_uuid ` {r \<in> snd ` set store. P r}"
        by (metis (mono_tags, lifting) image_eqI mem_Collect_eq)
      with a show False by simp
    qed
  next
    assume n: "\<not> P (snd kv)"
    show "fst kv \<notin> rec_uuid ` {r \<in> snd ` set store. P r}"
    proof
      assume "fst kv \<in> rec_uuid ` {r \<in> snd ` set store. P r}"
      then obtain kv' where kv': "kv' \<in> set store" "P (snd kv')" "rec_uuid (snd kv') = fst kv"
        by auto
      with u have "fst kv' = fst kv" by auto
      with d kv kv' have "kv' = kv"
        by (metis eq_key_imp_eq_value prod.collapse)
      with kv' n show False by simp
    qed
  qed
qed

lemma clean_processes_logstore:
  assumes "store_ok cfg (logstore st)"
  shows "logstore (clean_processes cfg now st) =
         filter (\<lambda>kv. \<not> cleanup_deletes cfg now (snd kv)) (logstore st)"
  unfolding clean_processes_def records_def logstore_fold_clean
  by (rule store_ok_filter[OF assms])

lemma clean_processes_dirs:
  "dirs (clean_processes cfg now st) =
     dirs st - workdir_of cfg ` {r \<in> snd ` set (logstore st). cleanup_deletes cfg now r}"
  unfolding clean_processes_def records_def by (rule dirs_fold_clean)

text \<open>What one tick does to a record of a well-formed store and to its working directory.\<close>

lemma store_ok_kept:
  assumes ok: "store_ok cfg (logstore st)" and kv: "kv \<in> set (logstore st)"
  shows "(kv \<in> set (logstore (clean_processes cfg now st)) \<longleftrightarrow>
           \<not> cleanup_deletes cfg now (snd kv)) \<and>
         (workdir_of cfg (snd kv) \<in> dirs (clean_processes cfg now st) \<longleftrightarrow>
           workdir_of cfg (snd kv) \<in> dirs st \<and> \<not> cleanup_deletes cfg now (snd kv))"
proof -
  have inj: "inj_on (\<lambda>kv. workdir_of cfg (snd kv)) (set (logstore st))"
    using ok by (simp add: store_ok_def)
  have a: "kv \<in> set (logstore (clean_processes cfg now st)) \<longleftrightarrow>
           \<not> cleanup_deletes cfg now (snd kv)"
    using kv by (simp add: clean_processes_logstore[OF ok])
  have b: "workdir_of cfg (snd kv) \<in> workdir_of cfg `
             {r \<in> snd ` set (logstore st). cleanup_deletes cfg now r}
           \<longleftrightarrow> cleanup_deletes cfg now (snd kv)"
  proof
    assume "workdir_of cfg (snd kv) \<in> workdir_of cfg `
             {r \<in> snd ` set (logstore st). cleanup_deletes cfg now r}"
    then obtain kv' where kv': "kv' \<in> set (logstore st)" "cleanup_deletes cfg now (snd kv')"
      "workdir_of cfg (snd kv) = workdir_of cfg (snd kv')"
      by auto
    with inj kv have "kv = kv'" by (auto dest: inj_onD)
    with kv' show "cleanup_deletes cfg now (snd kv)" by simp
  next
    assume "cleanup_deletes cfg now (snd kv)"
    with kv show "workdir_of cfg (snd kv) \<in> workdir_of cfg `
             {r \<in> snd ` set (logstore st). cleanup_deletes cfg now r}"
      by auto
  qed
  show ?thesis using a b by (auto simp: clean_processes_dirs)
qed

lemma in_flight_not_deleted:
  assumes "record_STATUS rec = Inr s" and "STATUS_value s < STATUS_value DONE_STATUS"
    and "rec_timestamp rec = Some ts" and "rec_timeout rec = Some t"
    and "now - of_int (py_int ts) < t"
  shows "\<not> cleanup_deletes cfg now rec"
  using assms by (simp add: cleanup_deletes_def is_dangling_def in_flight_def)

lemma py_int_of_int [simp]: "py_int (of_int n) = n"
  by (simp add: py_int_def)

text \<open>With a timestamp in whole seconds the truncation changes nothing, and the age may
  be counted from the timestamp itself.\<close>

lemma in_flight_not_deleted_whole_seconds:
  assumes "record_STATUS rec = Inr s" and "STATUS_value s < STATUS_value DONE_STATUS"
    and "rec_timestamp rec = Some (of_int n)" and "rec_timeout rec = Some t"
    and "now - of_int n < t"
  shows "\<not> cleanup_deletes cfg now rec"
  using assms by (simp add: cleanup_deletes_def is_dangling_def in_flight_def)

subsection \<open>The example store\<close>

lemma example_store_ok: "store_ok example_cfg (logstore example_state)"
  by (simp add: store_ok_def example_state_def example_rec_def example_cfg_def workdir_of_def
      path_join_def)

lemma example_STATUS:
  "record_STATUS (example_rec u ''STARTED'') = Inr STARTED"
  "record_STATUS (example_rec u ''DONE_STATUS'') = Inr DONE_STATUS"
  "record_STATUS (example_rec u ''SUCCEEDED'') = Inl KeyError"
  by (simp_all add: record_STATUS_def example_rec_def STATUS_getitem_def STATUS_members_def)

lemma example_workdir:
  "workdir_of example_cfg (example_rec ''run'' s) = ''/srv/wps/run''"
  "workdir_of example_cfg (example_rec ''done'' s) = ''/srv/wps/done''"
  "workdir_of example_cfg (example_rec ''old'' s) = ''/srv/wps/old''"
  by (simp_all add: workdir_of_def example_cfg_def example_rec_def path_join_def)

section \<open>The cleanup loop\<close>

text \<open>
  C2, as the claim states it, fails: the claim deletes every unpinned record that is
  dangling or expired, whatever its status. A \<^verbatim>\<open>STORE_AND_UPDATE_STATUS\<close> record updated at 0 with
  timeout 1000 and expiration 10 is at time 100 expired and not dangling; the rule of the
  claim deletes it, the loop reaches its \<^verbatim>\<open>continue\<close> and the tick changes nothing.
\<close>

theorem C2_counterexample:
  "spec_deletes 86400 100
     \<lparr>rec_uuid = ''job'', rec_status = Some ''STORE_AND_UPDATE_STATUS'', rec_timestamp = Some 0,
      rec_timeout = Some 1000, rec_expiration = Some 10, rec_pinned = Some False\<rparr>
   \<and> clean_processes \<lparr>cfg_workdir = ''/srv/wps'', cfg_response_expiration = 86400\<rparr> 100
       \<lparr>logstore = [(''job'',
           \<lparr>rec_uuid = ''job'', rec_status = Some ''STORE_AND_UPDATE_STATUS'', rec_timestamp = Some 0,
            rec_timeout = Some 1000, rec_expiration = Some 10, rec_pinned = Some False\<rparr>)],
        dirs = {''/srv/wps/job''}\<rparr>
     = \<lparr>logstore = [(''job'',
           \<lparr>rec_uuid = ''job'', rec_status = Some ''STORE_AND_UPDATE_STATUS'', rec_timestamp = Some 0,
            rec_timeout = Some 1000, rec_expiration = Some 10, rec_pinned = Some False\<rparr>)],
        dirs = {''/srv/wps/job''}\<rparr>"
  by (simp add: spec_deletes_def spec_expired_def clean_processes_def records_def
      clean_record_def dangling_check_def record_STATUS_def STATUS_getitem_def
      STATUS_members_def py_int_def)

text \<open>
  C2, amended: on a cleanup tick over a well-formed store, a record of the snapshot is
  deleted, and its working directory with it, exactly when it is not pinned and is either
  dangling or both expired and not in flight, where dangling = timestamp missing, or status
  a member below \<^verbatim>\<open>DONE_STATUS\<close> and (timeout missing or \<open>now - int(timestamp) \<ge> timeout\<close>),
  and expired = \<open>now - int(timestamp) \<ge>\<close> the record's expiration if present, else the
  configured default. The loop body does just that on every state it is run in.
\<close>

theorem C2_cleanup_rule:
  assumes "store_ok cfg (logstore st)" and "kv \<in> set (logstore st)"
  shows "(kv \<notin> set (logstore (clean_processes cfg now st)) \<longleftrightarrow>
            cleanup_deletes cfg now (snd kv)) \<and>
         (workdir_of cfg (snd kv) \<in> dirs (clean_processes cfg now st) \<longleftrightarrow>
            workdir_of cfg (snd kv) \<in> dirs st \<and> \<not> cleanup_deletes cfg now (snd kv)) \<and>
         (\<forall>st'. clean_record cfg now (snd kv) st' =
            (if cleanup_deletes cfg now (snd kv) then delete_record cfg (snd kv) st' else st'))"
  using store_ok_kept[OF assms, of now] by (simp add: clean_record_eq)

theorem C2_cleanup_rule_witness:
  "store_ok example_cfg (logstore example_state) \<and>
   (''run'', example_rec ''run'' ''STARTED'') \<in> set (logstore example_state) \<and>
   cleanup_deletes example_cfg 5000 (example_rec ''run'' ''STARTED'') \<and>
   (''run'', example_rec ''run'' ''STARTED'')
      \<notin> set (logstore (clean_processes example_cfg 5000 example_state)) \<and>
   ''/srv/wps/run'' \<notin> dirs (clean_processes example_cfg 5000 example_state)"
proof -
  have mem: "(''run'', example_rec ''run'' ''STARTED'') \<in> set (logstore example_state)"
    by (simp add: example_state_def)
  have del: "cleanup_deletes example_cfg 5000 (example_rec ''run'' ''STARTED'')"
    by (simp add: cleanup_deletes_def is_dangling_def is_pinned_def in_flight_def
        example_rec_def py_int_def record_STATUS_def STATUS_getitem_def STATUS_members_def)
  from C2_cleanup_rule[OF example_store_ok mem, of 5000] del example_store_ok mem
  show ?thesis by (simp add: example_workdir)
qed

text \<open>
  C3, as the claim states it, fails on a timestamp with a fraction: the loop counts the age
  from \<^verbatim>\<open>int(timestamp)\<close>. A \<^verbatim>\<open>STORE_AND_UPDATE_STATUS\<close> record updated at 100.5 with timeout 60 is,
  at 160.25, 59.75 seconds old and so not dangling in the claim's reading; the loop computes
  160.25 - 100 = 60.25, takes it as dangling and deletes record and directory.
\<close>

theorem C3_counterexample:
  "(641 / 4 :: rat) - 201 / 2 < 60 \<and>
   in_flight \<lparr>rec_uuid = ''job'', rec_status = Some ''STORE_AND_UPDATE_STATUS'',
      rec_timestamp = Some (201 / 2), rec_timeout = Some 60, rec_expiration = Some 3600,
      rec_pinned = Some False\<rparr> \<and>
   clean_processes \<lparr>cfg_workdir = ''/srv/wps'', cfg_response_expiration = 86400\<rparr> (641 / 4)
       \<lparr>logstore = [(''job'',
           \<lparr>rec_uuid = ''job'', rec_status = Some ''STORE_AND_UPDATE_STATUS'',
            rec_timestamp = Some (201 / 2), rec_timeout = Some 60, rec_expiration = Some 3600,
            rec_pinned = Some False\<rparr>)],
        dirs = {''/srv/wps/job''}\<rparr>
     = \<lparr>logstore = [], dirs = {}\<rparr>"
proof -
  have f: "py_int (201 / 2) = 100" by code_simp
  show ?thesis
    by (simp add: in_flight_def clean_processes_def records_def clean_record_def
      dangling_check_def record_STATUS_def STATUS_getitem_def STATUS_members_def f
      delete_record_def remove_workdir_def delete_response_def path_join_def)
qed

text \<open>
  C3, amended: a record whose status is a member strictly below \<^verbatim>\<open>DONE_STATUS\<close>, with a
  timestamp and a timeout such that \<open>now - int(timestamp) < timeout\<close> (the timestamp
  truncated to whole seconds), and not pinned, is never deleted: the loop body leaves every
  state unchanged on it, and after a tick over a well-formed store the record is still in
  the store and its working directory is as it was.
\<close>

theorem C3_in_flight_kept:
  assumes "record_STATUS rec = Inr s" and "STATUS_value s < STATUS_value DONE_STATUS"
    and "rec_timestamp rec = Some ts" and "rec_timeout rec = Some t"
    and "now - of_int (py_int ts) < t"
    and "rec_pinned rec \<noteq> Some True"
    and "store_ok cfg (logstore st)" and "(k, rec) \<in> set (logstore st)"
  shows "clean_record cfg now rec st' = st' \<and>
         (k, rec) \<in> set (logstore (clean_processes cfg now st)) \<and>
         (workdir_of cfg rec \<in> dirs (clean_processes cfg now st) \<longleftrightarrow>
            workdir_of cfg rec \<in> dirs st)"
proof -
  have n: "\<not> cleanup_deletes cfg now rec"
    using assms(1-5) by (rule in_flight_not_deleted)
  from store_ok_kept[OF assms(7,8), of now] n show ?thesis
    by (simp add: clean_record_eq)
qed

theorem C3_in_flight_kept_witness:
  "record_STATUS (example_rec ''run'' ''STARTED'') = Inr STARTED \<and>
   STATUS_value STARTED < STATUS_value DONE_STATUS \<and>
   (1030 :: rat) - of_int (py_int 1000) < 60 \<and>
   store_ok example_cfg (logstore example_state) \<and>
   (''run'', example_rec ''run'' ''STARTED'')
      \<in> set (logstore (clean_processes example_cfg 1030 example_state)) \<and>
   ''/srv/wps/run'' \<in> dirs (clean_processes example_cfg 1030 example_state)"
proof -
  have mem: "(''run'', example_rec ''run'' ''STARTED'') \<in> set (logstore example_state)"
    by (simp add: example_state_def)
  have age: "(1030 :: rat) - of_int (py_int 1000) < 60"
    by (simp add: py_int_def)
  have d: "''/srv/wps/run'' \<in> dirs example_state"
    by (simp add: example_state_def)
  from C3_in_flight_kept[OF example_STATUS(1) _ _ _ age _ example_store_ok mem,
      where st' = example_state]
  have "clean_record example_cfg 1030 (example_rec ''run'' ''STARTED'') example_state
          = example_state \<and>
        (''run'', example_rec ''run'' ''STARTED'')
          \<in> set (logstore (clean_processes example_cfg 1030 example_state)) \<and>
        (workdir_of example_cfg (example_rec ''run'' ''STARTED'')
          \<in> dirs (clean_processes example_cfg 1030 example_state)) =
        (workdir_of example_cfg (example_rec ''run'' ''STARTED'') \<in> dirs example_state)"
    by (simp add: example_rec_def)
  with d age example_store_ok show ?thesis
    by (simp add: example_workdir example_STATUS)
qed

text \<open>
  C4, as the claim states it, fails: the loop compares the age with the record's own
  expiration when it has one, not with the larger of that and the default. A
  \<^verbatim>\<open>DONE_STATUS\<close> record updated at 0 with expiration 10 is deleted at time 50 under a
  default of 100, although 50 is below \<open>max 10 100\<close>.
\<close>

theorem C4_counterexample:
  "\<not> ((50 :: rat) - 0 \<ge> max 10 (of_int 100)) \<and>
   record_STATUS \<lparr>rec_uuid = ''job'', rec_status = Some ''DONE_STATUS'',
      rec_timestamp = Some 0, rec_timeout = Some 60, rec_expiration = Some 10,
      rec_pinned = Some False\<rparr> = Inr DONE_STATUS \<and>
   clean_processes \<lparr>cfg_workdir = ''/srv/wps'', cfg_response_expiration = 100\<rparr> 50
       \<lparr>logstore = [(''job'',
           \<lparr>rec_uuid = ''job'', rec_status = Some ''DONE_STATUS'',
            rec_timestamp = Some 0, rec_timeout = Some 60, rec_expiration = Some 10,
            rec_pinned = Some False\<rparr>)],
        dirs = {''/srv/wps/job''}\<rparr>
     = \<lparr>logstore = [], dirs = {}\<rparr>"
  by (simp add: clean_processes_def records_def clean_record_def past_expiration_def
      dangling_check_def record_STATUS_def STATUS_getitem_def STATUS_members_def py_int_def
      delete_record_def remove_workdir_def delete_response_def path_join_def)

text \<open>
  C4, amended: for a record with a terminal status (a member not below \<^verbatim>\<open>DONE_STATUS\<close>),
  not pinned and with a timestamp, a cleanup tick over a well-formed store deletes the
  record, and its working directory, exactly when \<open>now - int(timestamp)\<close> has reached the
  record's own expiration if it has one, the configured default otherwise.
\<close>

theorem C4_terminal_expiry:
  assumes "record_STATUS rec = Inr s" and "STATUS_value DONE_STATUS \<le> STATUS_value s"
    and "rec_pinned rec \<noteq> Some True"
    and "rec_timestamp rec = Some ts"
    and "store_ok cfg (logstore st)" and "(k, rec) \<in> set (logstore st)"
  shows "((k, rec) \<notin> set (logstore (clean_processes cfg now st)) \<longleftrightarrow>
            now - of_int (py_int ts) \<ge> retention cfg rec) \<and>
         (workdir_of cfg rec \<in> dirs (clean_processes cfg now st) \<longleftrightarrow>
            workdir_of cfg rec \<in> dirs st \<and> \<not> now - of_int (py_int ts) \<ge> retention cfg rec)"
proof -
  have "cleanup_deletes cfg now rec \<longleftrightarrow> now - of_int (py_int ts) \<ge> retention cfg rec"
    using assms(1-4)
    by (simp add: cleanup_deletes_def is_dangling_def is_expired_def in_flight_def is_pinned_def)
  with store_ok_kept[OF assms(5,6), of now] show ?thesis by simp
qed

theorem C4_terminal_expiry_witness:
  "record_STATUS (example_rec ''done'' ''DONE_STATUS'') = Inr DONE_STATUS \<and>
   store_ok example_cfg (logstore example_state) \<and>
   retention example_cfg (example_rec ''done'' ''DONE_STATUS'') = 3600 \<and>
   (''done'', example_rec ''done'' ''DONE_STATUS'')
      \<in> set (logstore (clean_processes example_cfg 4599 example_state)) \<and>
   (''done'', example_rec ''done'' ''DONE_STATUS'')
      \<notin> set (logstore (clean_processes example_cfg 4600 example_state)) \<and>
   ''/srv/wps/done'' \<in> dirs (clean_processes example_cfg 4599 example_state) \<and>
   ''/srv/wps/done'' \<notin> dirs (clean_processes example_cfg 4600 example_state)"
proof -
  have mem: "(''done'', example_rec ''done'' ''DONE_STATUS'') \<in> set (logstore example_state)"
    by (simp add: example_state_def)
  have p: "rec_pinned (example_rec ''done'' ''DONE_STATUS'') \<noteq> Some True"
    and t: "rec_timestamp (example_rec ''done'' ''DONE_STATUS'') = Some 1000"
    and r: "retention example_cfg (example_rec ''done'' ''DONE_STATUS'') = 3600"
    by (simp_all add: example_rec_def retention_def)
  have d: "''/srv/wps/done'' \<in> dirs example_state"
    by (simp add: example_state_def)
  have i: "py_int 1000 = 1000" by (simp add: py_int_def)
  from C4_terminal_expiry[OF example_STATUS(2) _ p t example_store_ok mem, where now = 4599]
       C4_terminal_expiry[OF example_STATUS(2) _ p t example_store_ok mem, where now = 4600]
       d r example_store_ok
  show ?thesis by (simp add: example_workdir example_STATUS i)
qed

section \<open>Deleting results\<close>

text \<open>
  C5: \<^verbatim>\<open>delete_results(uuid)\<close> raises \<^verbatim>\<open>FileNotFoundError\<close> when the store has no record
  for the uuid; returns \<^verbatim>\<open>False\<close> and leaves store and directories as they are when the
  record's status is a member strictly below \<^verbatim>\<open>DONE_STATUS\<close>; otherwise removes the
  working directory (nothing to remove when it is missing), deletes the record and
  returns \<^verbatim>\<open>True\<close>.
\<close>

theorem C5_delete_results:
  "(get_status (logstore st) u = None \<longrightarrow>
      delete_results cfg u st = Inl (FileNotFoundError u)) \<and>
   (get_status (logstore st) u = Some rec \<and> in_flight rec \<longrightarrow>
      delete_results cfg u st = Inr (False, st)) \<and>
   (get_status (logstore st) u = Some rec \<and> \<not> in_flight rec \<longrightarrow>
      (\<exists>st'. delete_results cfg u st = Inr (True, st') \<and>
         dirs st' = dirs st - {workdir_of cfg rec} \<and>
         logstore st' = delete_response (rec_uuid rec) (logstore st) \<and>
         get_status (logstore st') (rec_uuid rec) = None))"
  by (auto simp: delete_results_def in_flight_def get_status_delete_response split: sum.splits)

theorem C5_delete_results_witness:
  "delete_results example_cfg ''absent'' example_state = Inl (FileNotFoundError ''absent'') \<and>
   delete_results example_cfg ''run'' example_state = Inr (False, example_state) \<and>
   delete_results example_cfg ''done'' example_state =
     Inr (True, \<lparr>logstore = [(''run'', example_rec ''run'' ''STARTED''),
                              (''old'', example_rec ''old'' ''SUCCEEDED'')],
                  dirs = {''/srv/wps/run''}\<rparr>)"
proof -
  have g: "get_status (logstore example_state) ''absent'' = None"
    "get_status (logstore example_state) ''run'' = Some (example_rec ''run'' ''STARTED'')"
    "get_status (logstore example_state) ''done'' = Some (example_rec ''done'' ''DONE_STATUS'')"
    by (simp_all add: get_status_def example_state_def)
  have f: "in_flight (example_rec ''run'' ''STARTED'')"
    "\<not> in_flight (example_rec ''done'' ''DONE_STATUS'')"
    by (simp_all add: in_flight_def example_STATUS)
  have u: "rec_uuid (example_rec ''done'' ''DONE_STATUS'') = ''done''"
    by (simp add: example_rec_def)
  have s: "logstore example_state = [(''run'', example_rec ''run'' ''STARTED''),
                  (''done'', example_rec ''done'' ''DONE_STATUS''),
                  (''old'', example_rec ''old'' ''SUCCEEDED'')]"
    "dirs example_state = {''/srv/wps/run'', ''/srv/wps/done''}"
    by (simp_all add: example_state_def)
  from C5_delete_results[where st = example_state and u = "''absent''" and cfg = example_cfg] g(1)
  have a: "delete_results example_cfg ''absent'' example_state = Inl (FileNotFoundError ''absent'')"
    by simp
  from C5_delete_results[where st = example_state and u = "''run''" and cfg = example_cfg
      and rec = "example_rec ''run'' ''STARTED''"] g(2) f(1)
  have b: "delete_results example_cfg ''run'' example_state = Inr (False, example_state)"
    by simp
  from C5_delete_results[where st = example_state and u = "''done''" and cfg = example_cfg
      and rec = "example_rec ''done'' ''DONE_STATUS''"] g(3) f(2)
  obtain st' where c: "delete_results example_cfg ''done'' example_state = Inr (True, st')"
    "dirs st' = dirs example_state - {workdir_of example_cfg (example_rec ''done'' ''DONE_STATUS'')}"
    "logstore st' = delete_response (rec_uuid (example_rec ''done'' ''DONE_STATUS'')) (logstore example_state)"
    by auto
  have "st' = \<lparr>logstore = [(''run'', example_rec ''run'' ''STARTED''),
                              (''old'', example_rec ''old'' ''SUCCEEDED'')],
                  dirs = {''/srv/wps/run''}\<rparr>"
    using c(2,3) by (cases st') (auto simp: u s example_workdir delete_response_def)
  with a b c(1) show ?thesis by simp
qed

text \<open>
  C10: a record whose status names no member of \<^verbatim>\<open>STATUS\<close> (a legacy record) is handled as
  a terminal one. \<^verbatim>\<open>delete_results\<close> does not return \<^verbatim>\<open>False\<close> for it: it returns
  \<^verbatim>\<open>True\<close> with the record gone from the store and its working directory gone from the
  directories. The cleanup does not consult its timeout: for such a record with a timestamp
  the loop body removes record and directory exactly when the record is not pinned and
  \<open>now - int(timestamp)\<close> has reached its retention, and leaves store and directories as
  they are otherwise; so does a whole tick over a well-formed store.
\<close>

theorem C10_legacy_status:
  assumes "rec_status rec = Some name" and "\<forall>s. STATUS_name s \<noteq> name"
  shows "(get_status (logstore st) u = Some rec \<longrightarrow>
            (\<exists>st'. delete_results cfg u st = Inr (True, st') \<and>
               logstore st' = filter (\<lambda>kv. fst kv \<noteq> rec_uuid rec) (logstore st) \<and>
               get_status (logstore st') (rec_uuid rec) = None \<and>
               dirs st' = dirs st - {path_join (cfg_workdir cfg) (rec_uuid rec)})) \<and>
         (rec_timestamp rec = Some ts \<longrightarrow>
            logstore (clean_record cfg now rec st) =
              (if rec_pinned rec \<noteq> Some True \<and> now - of_int (py_int ts) \<ge> retention cfg rec
               then filter (\<lambda>kv. fst kv \<noteq> rec_uuid rec) (logstore st) else logstore st) \<and>
            dirs (clean_record cfg now rec st) =
              (if rec_pinned rec \<noteq> Some True \<and> now - of_int (py_int ts) \<ge> retention cfg rec
               then dirs st - {path_join (cfg_workdir cfg) (rec_uuid rec)} else dirs st)) \<and>
         (rec_timestamp rec = Some ts \<and> store_ok cfg (logstore st) \<and> (k, rec) \<in> set (logstore st)
            \<longrightarrow>
            ((k, rec) \<notin> set (logstore (clean_processes cfg now st)) \<longleftrightarrow>
               rec_pinned rec \<noteq> Some True \<and> now - of_int (py_int ts) \<ge> retention cfg rec) \<and>
            (path_join (cfg_workdir cfg) (rec_uuid rec) \<in> dirs (clean_processes cfg now st) \<longleftrightarrow>
               path_join (cfg_workdir cfg) (rec_uuid rec) \<in> dirs st \<and>
               \<not> (rec_pinned rec \<noteq> Some True \<and> now - of_int (py_int ts) \<ge> retention cfg rec)))"
proof -
  have k: "record_STATUS rec = Inl KeyError"
    using assms by (simp add: record_STATUS_def STATUS_getitem_unknown)
  have d: "rec_timestamp rec = Some ts \<Longrightarrow>
           cleanup_deletes cfg now rec \<longleftrightarrow>
             rec_pinned rec \<noteq> Some True \<and> now - of_int (py_int ts) \<ge> retention cfg rec"
    using k by (simp add: cleanup_deletes_def is_dangling_def is_expired_def in_flight_def
        is_pinned_def)
  have a: "get_status (logstore st) u = Some rec \<longrightarrow>
            (\<exists>st'. delete_results cfg u st = Inr (True, st') \<and>
               logstore st' = filter (\<lambda>kv. fst kv \<noteq> rec_uuid rec) (logstore st) \<and>
               get_status (logstore st') (rec_uuid rec) = None \<and>
               dirs st' = dirs st - {path_join (cfg_workdir cfg) (rec_uuid rec)})"
    using k get_status_delete_response[of "rec_uuid rec" "logstore st"]
    by (simp add: delete_results_def delete_response_def workdir_of_def)
  have b: "rec_timestamp rec = Some ts \<longrightarrow>
            logstore (clean_record cfg now rec st) =
              (if rec_pinned rec \<noteq> Some True \<and> now - of_int (py_int ts) \<ge> retention cfg rec
               then filter (\<lambda>kv. fst kv \<noteq> rec_uuid rec) (logstore st) else logstore st) \<and>
            dirs (clean_record cfg now rec st) =
              (if rec_pinned rec \<noteq> Some True \<and> now - of_int (py_int ts) \<ge> retention cfg rec
               then dirs st - {path_join (cfg_workdir cfg) (rec_uuid rec)} else dirs st)"
    using d by (simp add: clean_record_eq delete_response_def workdir_of_def)
  have c: "rec_timestamp rec = Some ts \<and> store_ok cfg (logstore st) \<and> (k, rec) \<in> set (logstore st)
            \<longrightarrow>
            ((k, rec) \<notin> set (logstore (clean_processes cfg now st)) \<longleftrightarrow>
               rec_pinned rec \<noteq> Some True \<and> now - of_int (py_int ts) \<ge> retention cfg rec) \<and>
            (path_join (cfg_workdir cfg) (rec_uuid rec) \<in> dirs (clean_processes cfg now st) \<longleftrightarrow>
               path_join (cfg_workdir cfg) (rec_uuid rec) \<in> dirs st \<and>
               \<not> (rec_pinned rec \<noteq> Some True \<and> now - of_int (py_int ts) \<ge> retention cfg rec))"
  proof (intro impI, elim conjE)
    assume t: "rec_timestamp rec = Some ts" and ok: "store_ok cfg (logstore st)"
      and m: "(k, rec) \<in> set (logstore st)"
    from store_ok_kept[OF ok m, of now] d[OF t]
    show "((k, rec) \<notin> set (logstore (clean_processes cfg now st)) \<longleftrightarrow>
               rec_pinned rec \<noteq> Some True \<and> now - of_int (py_int ts) \<ge> retention cfg rec) \<and>
            (path_join (cfg_workdir cfg) (rec_uuid rec) \<in> dirs (clean_processes cfg now st) \<longleftrightarrow>
               path_join (cfg_workdir cfg) (rec_uuid rec) \<in> dirs st \<and>
               \<not> (rec_pinned rec \<noteq> Some True \<and> now - of_int (py_int ts) \<ge> retention cfg rec))"
      by (simp add: workdir_of_def)
  qed
  from a b c show ?thesis by blast
qed

theorem C10_legacy_status_witness:
  "rec_status (example_rec ''old'' ''SUCCEEDED'') = Some ''SUCCEEDED'' \<and>
   (\<forall>s. STATUS_name s \<noteq> ''SUCCEEDED'') \<and>
   retention example_cfg (example_rec ''old'' ''SUCCEEDED'') = 3600 \<and>
   delete_results example_cfg ''old'' example_legacy_state = Inr (True, \<lparr>logstore = [], dirs = {}\<rparr>) \<and>
   clean_record example_cfg 4599 (example_rec ''old'' ''SUCCEEDED'') example_legacy_state
     = example_legacy_state \<and>
   clean_record example_cfg 4600 (example_rec ''old'' ''SUCCEEDED'') example_legacy_state
     = \<lparr>logstore = [], dirs = {}\<rparr> \<and>
   (''old'', example_rec ''old'' ''SUCCEEDED'')
      \<in> set (logstore (clean_processes example_cfg 4599 example_legacy_state)) \<and>
   (''old'', example_rec ''old'' ''SUCCEEDED'')
      \<notin> set (logstore (clean_processes example_cfg 4600 example_legacy_state)) \<and>
   ''/srv/wps/old'' \<in> dirs (clean_processes example_cfg 4599 example_legacy_state) \<and>
   ''/srv/wps/old'' \<notin> dirs (clean_processes example_cfg 4600 example_legacy_state)"
proof -
  have n: "rec_status (example_rec ''old'' ''SUCCEEDED'') = Some ''SUCCEEDED''"
    by (simp add: example_rec_def)
  have m: "\<forall>s. STATUS_name s \<noteq> ''SUCCEEDED''"
  proof
    fix s show "STATUS_name s \<noteq> ''SUCCEEDED''" by (cases s) simp_all
  qed
  have g: "get_status (logstore example_legacy_state) ''old'' = Some (example_rec ''old'' ''SUCCEEDED'')"
    by (simp add: get_status_def example_legacy_state_def)
  have t: "rec_timestamp (example_rec ''old'' ''SUCCEEDED'') = Some 1000"
    and p: "rec_pinned (example_rec ''old'' ''SUCCEEDED'') \<noteq> Some True"
    and r: "retention example_cfg (example_rec ''old'' ''SUCCEEDED'') = 3600"
    and u: "rec_uuid (example_rec ''old'' ''SUCCEEDED'') = ''old''"
    by (simp_all add: example_rec_def retention_def)
  have w: "path_join (cfg_workdir example_cfg) ''old'' = ''/srv/wps/old''"
    by (simp add: path_join_def example_cfg_def)
  have i: "py_int 1000 = 1000" by (simp add: py_int_def)
  have s: "logstore example_legacy_state = [(''old'', example_rec ''old'' ''SUCCEEDED'')]"
    "dirs example_legacy_state = {''/srv/wps/old''}"
    by (simp_all add: example_legacy_state_def)
  have ok: "store_ok example_cfg (logstore example_legacy_state)"
    by (simp add: store_ok_def s u)
  have mem: "(''old'', example_rec ''old'' ''SUCCEEDED'') \<in> set (logstore example_legacy_state)"
    by (simp add: s)
  note a = C10_legacy_status[OF n m, where st = example_legacy_state and u = "''old''"
         and cfg = example_cfg and ts = 1000 and now = 4599 and k = "''old''"]
  note b = C10_legacy_status[OF n m, where st = example_legacy_state and u = "''old''"
         and cfg = example_cfg and ts = 1000 and now = 4600 and k = "''old''"]
  from a g obtain st' where d: "delete_results example_cfg ''old'' example_legacy_state = Inr (True, st')"
    "logstore st' = filter (\<lambda>kv. fst kv \<noteq> rec_uuid (example_rec ''old'' ''SUCCEEDED''))
                      (logstore example_legacy_state)"
    "dirs st' = dirs example_legacy_state
                  - {path_join (cfg_workdir example_cfg) (rec_uuid (example_rec ''old'' ''SUCCEEDED''))}"
    by blast
  have d': "st' = \<lparr>logstore = [], dirs = {}\<rparr>"
    using d(2,3) by (cases st') (simp add: u s w)
  have c1: "clean_record example_cfg 4599 (example_rec ''old'' ''SUCCEEDED'') example_legacy_state
     = example_legacy_state"
    using a t p r i
    by (cases "clean_record example_cfg 4599 (example_rec ''old'' ''SUCCEEDED'') example_legacy_state")
       (simp add: s example_legacy_state_def)
  have c2: "clean_record example_cfg 4600 (example_rec ''old'' ''SUCCEEDED'') example_legacy_state
     = \<lparr>logstore = [], dirs = {}\<rparr>"
    using b t p r i
    by (cases "clean_record example_cfg 4600 (example_rec ''old'' ''SUCCEEDED'') example_legacy_state")
       (simp add: s u w)
  from a b t p r i ok mem
  have c3: "(''old'', example_rec ''old'' ''SUCCEEDED'')
      \<in> set (logstore (clean_processes example_cfg 4599 example_legacy_state)) \<and>
   (''old'', example_rec ''old'' ''SUCCEEDED'')
      \<notin> set (logstore (clean_processes example_cfg 4600 example_legacy_state)) \<and>
   ''/srv/wps/old'' \<in> dirs (clean_processes example_cfg 4599 example_legacy_state) \<and>
   ''/srv/wps/old'' \<notin> dirs (clean_processes example_cfg 4600 example_legacy_state)"
    by (simp add: u w s)
  from n m r d(1) d' c1 c2 c3 show ?thesis by simp
qed

section \<open>The notifier\<close>


lemma notify_pid [simp]: "cl_pid (notify call c) = cl_pid c"
  by (cases call) (simp_all add: notify_busy_def notify_done_def send_def)



lemma fold_notify_pid [simp]: "cl_pid (fold notify calls c) = cl_pid c"
  by (induction calls arbitrary: c) simp_all




section \<open>The supervisor's timers\<close>

lemma upt2: "[0..<2] = [0, 1]" by (simp add: upt_rec)

lemma on_frame_DONE_unknown:
  "sv_busy s pid = None \<Longrightarrow> on_frame (pid, ''DONE'') s = s"
  by (simp add: on_frame_def)

lemma on_frame_DONE_known:
  "sv_busy s pid = Some h \<Longrightarrow>
   on_frame (pid, ''DONE'') s = cancel h (s\<lparr>sv_busy := (sv_busy s)(pid := None)\<rparr>)"
  by (simp add: on_frame_def)

lemma on_frame_BUSY_entry:
  "sv_busy (on_frame (pid, ''BUSY'') s) pid = Some (length (sv_scheduled s))"
  by (simp add: on_frame_def call_later_def)

text \<open>
  C1: the table \<^verbatim>\<open>_busy\<close> holds one handle per pid, and \<^verbatim>\<open>DONE\<close> cancels and removes it
  (\<open>on_frame_DONE_known\<close>, \<open>on_frame_DONE_unknown\<close>). But a \<^verbatim>\<open>BUSY\<close> frame for a pid that
  has an entry overwrites the entry without cancelling the handle it held, and the event
  loop still runs that handle. With a timeout of 30: \<^verbatim>\<open>BUSY(7)\<close> at time 0 and again at
  time 20 leave two kill-timers pending for pid 7, the table naming the second; at time 30
  the first one runs, removes the table entry of the second and kills worker 7, ten seconds
  after its latest \<^verbatim>\<open>BUSY\<close>.
\<close>

theorem C1_stale_timer:
  "pending 7 (run_loop [Recv (7, ''BUSY''), Sleep_until 20, Recv (7, ''BUSY'')]
                (Supervisor_init 30)) = [0, 1] \<and>
   sv_busy (run_loop [Recv (7, ''BUSY''), Sleep_until 20, Recv (7, ''BUSY'')]
                (Supervisor_init 30)) 7 = Some 1 \<and>
   sv_killed (run_loop [Recv (7, ''BUSY''), Sleep_until 20, Recv (7, ''BUSY''), Sleep_until 30]
                (Supervisor_init 30)) = [(30, 7)] \<and>
   sv_busy (run_loop [Recv (7, ''BUSY''), Sleep_until 20, Recv (7, ''BUSY''), Sleep_until 30]
                (Supervisor_init 30)) 7 = None"
  by (simp add: run_loop_def Supervisor_init_def on_frame_def call_later_def sleep_until_def
      run_handle_def kill_def pending_def Let_def upt2)

section \<open>The envelope\<close>

lemma run_process_Returns:
  "handler req resp = (r, Returns) \<Longrightarrow>
   run_process handler req resp is_async timeout =
     ([Chdir (resp_workdir resp), Update_status ''Task started'' (Some 0) None,
       Timer_start timeout is_async, Call_handler,
       Update_status ''Task finished'' (Some 100) (Some DONE_STATUS), Timer_cancel]
        @ (if is_async then [] else [Etree_tostring]),
      Return (if is_async then None
              else Some (r\<lparr>resp_document := tostring (resp_document r)\<rparr>)))"
  by (simp add: run_process_def Let_def)

lemma run_process_ProcessException:
  "handler req resp = (r, Raises (ProcessException m)) \<Longrightarrow>
   run_process handler req resp is_async timeout =
     ([Chdir (resp_workdir resp), Update_status ''Task started'' (Some 0) None,
       Timer_start timeout is_async, Call_handler,
       Update_status m None (Some ERROR_STATUS), Timer_cancel],
      if is_async then Return None else Raise (ProcessException m))"
  by (simp add: run_process_def Let_def)

lemma run_process_other:
  "handler req resp = (r, Raises e) \<Longrightarrow> \<forall>m. e \<noteq> ProcessException m \<Longrightarrow>
   run_process handler req resp is_async timeout =
     ([Chdir (resp_workdir resp), Update_status ''Task started'' (Some 0) None,
       Timer_start timeout is_async, Call_handler, Timer_cancel],
      Raise e)"
  by (cases e) (simp_all add: run_process_def Let_def)

lemma run_process_Hangs:
  "handler req resp = (r, Hangs) \<Longrightarrow>
   run_process handler req resp is_async timeout =
     ([Chdir (resp_workdir resp), Update_status ''Task started'' (Some 0) None,
       Timer_start timeout is_async, Call_handler] @ timeout_kill r is_async,
      Killed SIGABRT)"
  by (simp add: run_process_def Let_def)

text \<open>
  C7, as the claim states it, fails on two counts. The update before the handler is the
  call \<^verbatim>\<open>update_status('Task started', 0)\<close>: it carries the message and the progress 0 and
  no status member, so the envelope itself sets no STARTED. And the timer is not cancelled
  in every case: for a task whose handler is still running when the timer fires, the
  \<^verbatim>\<open>finally\<close> clause is never reached; the callback runs and the process is killed.
\<close>

theorem C7_counterexample:
  "run_process hanging_handler example_request (example_response STORE_STATUS) False 30
     = ([Chdir ''/srv/wps/job'', Update_status ''Task started'' (Some 0) None,
         Timer_start 30 False, Call_handler,
         Log_error ''Timeout occured in worker process'',
         Update_status ''Timeout Error'' None (Some ERROR_STATUS),
         Os_kill SIGABRT],
        Killed SIGABRT) \<and>
   Timer_cancel \<notin> set (fst (run_process hanging_handler example_request
                                (example_response STORE_STATUS) False 30)) \<and>
   Update_status ''Task started'' (Some 0) (Some STARTED)
     \<notin> set (fst (run_process hanging_handler example_request
                     (example_response STORE_STATUS) False 30))"
  by (simp add: run_process_def hanging_handler_def timeout_kill_def example_response_def)

text \<open>
  C7, amended: for every task run in a worker the envelope first changes to the working
  directory, calls \<^verbatim>\<open>update_status('Task started', 0)\<close> (progress 0, no status member of
  its own) and starts the timer, and only then invokes the handler. If the handler returns
  cleanly it updates to \<^verbatim>\<open>DONE_STATUS\<close> at 100; if the handler raises a
  \<^verbatim>\<open>ProcessException\<close> it updates to \<^verbatim>\<open>ERROR_STATUS\<close> with the exception's message and
  raises the exception again if and only if the mode is SYNC (\<^verbatim>\<open>is_async\<close> false); any
  other exception is passed on without an update. The timer is cancelled afterwards exactly
  when the handler returns or raises; when the handler is still running as the timer
  fires, the timeout callback runs instead and the process is killed. The document is
  serialised, and the response returned, only in SYNC mode after a clean return. No update
  of the envelope carries STARTED.
\<close>

theorem C7_envelope:
  assumes "handler req resp = (r, e)"
  shows "(e = Returns \<longrightarrow>
            run_process handler req resp is_async timeout =
              ([Chdir (resp_workdir resp), Update_status ''Task started'' (Some 0) None,
                Timer_start timeout is_async, Call_handler,
                Update_status ''Task finished'' (Some 100) (Some DONE_STATUS), Timer_cancel]
                 @ (if is_async then [] else [Etree_tostring]),
               Return (if is_async then None
                       else Some (r\<lparr>resp_document := tostring (resp_document r)\<rparr>)))) \<and>
         (\<forall>m. e = Raises (ProcessException m) \<longrightarrow>
            run_process handler req resp is_async timeout =
              ([Chdir (resp_workdir resp), Update_status ''Task started'' (Some 0) None,
                Timer_start timeout is_async, Call_handler,
                Update_status m None (Some ERROR_STATUS), Timer_cancel],
               if is_async then Return None else Raise (ProcessException m))) \<and>
         (\<forall>x. e = Raises x \<and> (\<forall>m. x \<noteq> ProcessException m) \<longrightarrow>
            run_process handler req resp is_async timeout =
              ([Chdir (resp_workdir resp), Update_status ''Task started'' (Some 0) None,
                Timer_start timeout is_async, Call_handler, Timer_cancel],
               Raise x)) \<and>
         (e = Hangs \<longrightarrow>
            run_process handler req resp is_async timeout =
              ([Chdir (resp_workdir resp), Update_status ''Task started'' (Some 0) None,
                Timer_start timeout is_async, Call_handler,
                Log_error ''Timeout occured in worker process'',
                Update_status ''Timeout Error'' None (Some ERROR_STATUS), Os_kill SIGABRT],
               Killed SIGABRT)) \<and>
         (Timer_cancel \<in> set (fst (run_process handler req resp is_async timeout))
            \<longleftrightarrow> e \<noteq> Hangs) \<and>
         (Etree_tostring \<in> set (fst (run_process handler req resp is_async timeout))
            \<longleftrightarrow> \<not> is_async \<and> e = Returns) \<and>
         (\<forall>r'. snd (run_process handler req resp is_async timeout) = Return (Some r')
            \<longleftrightarrow> \<not> is_async \<and> e = Returns \<and>
                r' = r\<lparr>resp_document := tostring (resp_document r)\<rparr>) \<and>
         (\<forall>m. e = Raises (ProcessException m) \<longrightarrow>
            (snd (run_process handler req resp is_async timeout) = Raise (ProcessException m)
               \<longleftrightarrow> \<not> is_async)) \<and>
         (\<forall>msg p. Update_status msg p (Some STARTED)
            \<notin> set (fst (run_process handler req resp is_async timeout)))"
proof (cases e)
  case Returns
  from run_process_Returns[where handler = handler and req = req and resp = resp and r = r,
      OF assms(1)[unfolded Returns], of is_async timeout] Returns
  show ?thesis by auto
next
  case (Raises x)
  show ?thesis
  proof (cases x)
    case (ProcessException m)
    from run_process_ProcessException[where handler = handler and req = req and resp = resp
        and r = r, OF assms(1)[unfolded Raises ProcessException], of is_async timeout]
      Raises ProcessException
    show ?thesis by auto
  next
    case TimeoutError
    from run_process_other[where handler = handler and req = req and resp = resp and r = r,
        OF assms(1)[unfolded Raises], of is_async timeout] Raises TimeoutError
    show ?thesis by auto
  next
    case (OtherException s)
    from run_process_other[where handler = handler and req = req and resp = resp and r = r,
        OF assms(1)[unfolded Raises], of is_async timeout] Raises OtherException
    show ?thesis by auto
  qed
next
  case Hangs
  from run_process_Hangs[where handler = handler and req = req and resp = resp and r = r,
      OF assms(1)[unfolded Hangs], of is_async timeout] Hangs
  show ?thesis by (auto simp: timeout_kill_def)
qed

theorem C7_envelope_witness:
  "returning_handler ''<wps/>'' example_request (example_response STORE_STATUS)
     = ((example_response STORE_STATUS)\<lparr>resp_document := Tree ''<wps/>''\<rparr>, Returns) \<and>
   run_process (returning_handler ''<wps/>'') example_request
       (example_response STORE_STATUS) False 30
     = ([Chdir ''/srv/wps/job'', Update_status ''Task started'' (Some 0) None,
         Timer_start 30 False, Call_handler,
         Update_status ''Task finished'' (Some 100) (Some DONE_STATUS), Timer_cancel,
         Etree_tostring],
        Return (Some ((example_response STORE_STATUS)\<lparr>resp_document := Bytes ''<wps/>''\<rparr>))) \<and>
   raising_handler (ProcessException ''no such layer'') example_request
       (example_response STORE_AND_UPDATE_STATUS)
     = (example_response STORE_AND_UPDATE_STATUS, Raises (ProcessException ''no such layer'')) \<and>
   run_process (raising_handler (ProcessException ''no such layer'')) example_request
       (example_response STORE_AND_UPDATE_STATUS) True 30
     = ([Chdir ''/srv/wps/job'', Update_status ''Task started'' (Some 0) None,
         Timer_start 30 True, Call_handler,
         Update_status ''no such layer'' None (Some ERROR_STATUS), Timer_cancel],
        Return None)"
proof -
  have h: "returning_handler ''<wps/>'' example_request (example_response STORE_STATUS)
     = ((example_response STORE_STATUS)\<lparr>resp_document := Tree ''<wps/>''\<rparr>, Returns)"
    by (simp add: returning_handler_def)
  have g: "raising_handler (ProcessException ''no such layer'') example_request
       (example_response STORE_AND_UPDATE_STATUS)
     = (example_response STORE_AND_UPDATE_STATUS, Raises (ProcessException ''no such layer''))"
    by (simp add: raising_handler_def)
  have w: "resp_workdir (example_response s) = ''/srv/wps/job''" for s
    by (simp add: example_response_def)
  from C7_envelope[where handler = "returning_handler ''<wps/>''" and is_async = False
         and timeout = 30, OF h]
       C7_envelope[where handler = "raising_handler (ProcessException ''no such layer'')"
         and is_async = True and timeout = 30, OF g]
       h g
  show ?thesis by (simp add: tostring_def w)
qed

text \<open>
  C8: the timeout callback first updates the status to \<^verbatim>\<open>ERROR_STATUS\<close> with the message
  "Timeout Error" and then sends \<^verbatim>\<open>SIGABRT\<close> to its own process, which is the last thing it
  does. It is the callback of the timer the envelope starts with the request's timeout: when
  the handler is still running as the timer fires, the worker's actions end with those of
  the callback and the process is killed.
\<close>

theorem C8_timeout_callback:
  "precedes (Update_status ''Timeout Error'' None (Some ERROR_STATUS)) (Os_kill SIGABRT)
     (timeout_kill response is_async) \<and>
   last (timeout_kill response is_async) = Os_kill SIGABRT \<and>
   [a \<leftarrow> timeout_kill response is_async. a \<noteq> Log_error ''Timeout occured in worker process''] =
     [Update_status ''Timeout Error'' None (Some ERROR_STATUS), Os_kill SIGABRT] \<and>
   (handler req resp = (r, Hangs) \<longrightarrow>
      run_process handler req resp is_async timeout =
        ([Chdir (resp_workdir resp), Update_status ''Task started'' (Some 0) None,
          Timer_start timeout is_async, Call_handler] @ timeout_kill r is_async,
         Killed SIGABRT))"
  by (simp add: precedes_def timeout_kill_def run_process_Hangs)

theorem C8_timeout_callback_witness:
  "hanging_handler example_request (example_response STORE_STATUS)
     = (example_response STORE_STATUS, Hangs) \<and>
   run_process hanging_handler example_request (example_response STORE_STATUS) False 30
     = ([Chdir ''/srv/wps/job'', Update_status ''Task started'' (Some 0) None,
         Timer_start 30 False, Call_handler,
         Log_error ''Timeout occured in worker process'',
         Update_status ''Timeout Error'' None (Some ERROR_STATUS),
         Os_kill SIGABRT],
        Killed SIGABRT)"
proof -
  have h: "hanging_handler example_request (example_response STORE_STATUS)
     = (example_response STORE_STATUS, Hangs)"
    by (simp add: hanging_handler_def)
  from C8_timeout_callback[where handler = hanging_handler and req = example_request
         and resp = "example_response STORE_STATUS" and r = "example_response STORE_STATUS"
         and is_async = False and timeout = 30 and response = "example_response STORE_STATUS"] h
  show ?thesis by (simp add: timeout_kill_def example_response_def)
qed

section \<open>Synchronous execution\<close>

lemma sync_submit_future:
  assumes "handler req resp = (r, e)"
  shows "snd (sync_submit handler in_time req resp) =
     (if \<not> in_time then Pending
      else case e of
             Returns \<Rightarrow> Result (Some (r\<lparr>resp_document := tostring (resp_document r)\<rparr>))
           | Raises x \<Rightarrow> Exception x
           | Hangs \<Rightarrow> Pending)"
proof (cases e)
  case Returns
  with assms show ?thesis
    by (simp add: sync_submit_def run_process_Returns apply_async_sync_def)
next
  case (Raises x)
  with assms show ?thesis
    by (cases x)
       (simp_all add: sync_submit_def run_process_ProcessException run_process_other
         apply_async_sync_def)
next
  case Hangs
  with assms show ?thesis
    by (simp add: sync_submit_def run_process_Hangs apply_async_sync_def)
qed

lemma execute_sync:
  assumes "resp_status resp \<noteq> STORE_AND_UPDATE_STATUS"
  shows "snd (execute handler in_time req resp) =
     (case snd (sync_submit handler in_time req (set_store resp)) of
        Pending \<Rightarrow> Inl (NoApplicableCode ''Execute Timeout'' 424)
      | Result x \<Rightarrow> Inr x
      | Exception TimeoutError \<Rightarrow> Inl (NoApplicableCode ''Execute Timeout'' 424)
      | Exception (ProcessException m) \<Rightarrow> Inl (NoApplicableCode ''Process error'' 424)
      | Exception (OtherException x) \<Rightarrow> Inl (Uncaught (OtherException x)))"
  using assms
  by (simp add: execute_def Let_def set_store_def wait_for_def
      split: prod.splits future.splits exn.splits)

text \<open>
  C6, as the claim states it, fails: there is a third way to the 424 error. The clause
  \<^verbatim>\<open>except asyncio.TimeoutError\<close> catches whatever the \<^verbatim>\<open>await\<close> raises, also the
  exception of a future that was resolved in time. A handler that itself raises
  \<^verbatim>\<open>asyncio.TimeoutError\<close> (from Python 3.11 the builtin \<^verbatim>\<open>TimeoutError\<close>) resolves the
  future with that exception, and \<^verbatim>\<open>execute\<close> raises "Execute Timeout" with code 424,
  although the handler raised no \<^verbatim>\<open>ProcessException\<close> and the future was resolved within
  the timeout.
\<close>

theorem C6_counterexample:
  "snd (sync_submit (raising_handler TimeoutError) True example_request
          (set_store (example_response STORE_STATUS))) = Exception TimeoutError \<and>
   snd (execute (raising_handler TimeoutError) True example_request (example_response STORE_STATUS))
     = Inl (NoApplicableCode ''Execute Timeout'' 424)"
  by (simp add: execute_def sync_submit_def run_process_def raising_handler_def
      apply_async_sync_def wait_for_def set_store_def example_response_def Let_def)

text \<open>
  C6, amended: in SYNC mode (a status other than \<^verbatim>\<open>STORE_AND_UPDATE_STATUS\<close>), when the
  handler raises a \<^verbatim>\<open>ProcessException\<close> the awaited future completes with that exception
  and \<^verbatim>\<open>execute\<close> raises "Process error" with code 424; when the future is not resolved
  within the request timeout (the callback comes too late or the worker was killed), and
  also when it completes with an \<^verbatim>\<open>asyncio.TimeoutError\<close> raised by the handler,
  \<^verbatim>\<open>execute\<close> raises "Execute Timeout" with code 424; these are the only cases in which
  \<^verbatim>\<open>execute\<close> raises its \<^verbatim>\<open>NoApplicableCode\<close>. Any other exception of the handler is
  passed on as it is, and on handler success \<^verbatim>\<open>execute\<close> returns the response.
\<close>

theorem C6_execute_sync:
  assumes "resp_status resp \<noteq> STORE_AND_UPDATE_STATUS"
    and "handler req (set_store resp) = (r, e)"
  shows "(in_time \<and> e = Raises (ProcessException m) \<longrightarrow>
            snd (sync_submit handler in_time req (set_store resp)) = Exception (ProcessException m) \<and>
            snd (execute handler in_time req resp) = Inl (NoApplicableCode ''Process error'' 424)) \<and>
         (snd (sync_submit handler in_time req (set_store resp)) = Pending \<longleftrightarrow>
            \<not> in_time \<or> e = Hangs) \<and>
         (snd (sync_submit handler in_time req (set_store resp)) = Pending \<or>
          snd (sync_submit handler in_time req (set_store resp)) = Exception TimeoutError \<longrightarrow>
            snd (execute handler in_time req resp) = Inl (NoApplicableCode ''Execute Timeout'' 424)) \<and>
         (in_time \<and> e = Returns \<longrightarrow>
            snd (execute handler in_time req resp) =
              Inr (Some (r\<lparr>resp_document := tostring (resp_document r)\<rparr>))) \<and>
         (in_time \<and> e = Raises (OtherException x) \<longrightarrow>
            snd (execute handler in_time req resp) = Inl (Uncaught (OtherException x))) \<and>
         ((\<exists>msg code. snd (execute handler in_time req resp) = Inl (NoApplicableCode msg code)) \<longleftrightarrow>
            (\<exists>m'. snd (sync_submit handler in_time req (set_store resp))
                     = Exception (ProcessException m')) \<or>
            snd (sync_submit handler in_time req (set_store resp)) = Pending \<or>
            snd (sync_submit handler in_time req (set_store resp)) = Exception TimeoutError)"
  unfolding execute_sync[OF assms(1)] sync_submit_future[where handler = handler, OF assms(2)]
  by (cases e; cases in_time) (auto split: exn.splits)

theorem C6_execute_sync_witness:
  "resp_status (example_response STORE_STATUS) \<noteq> STORE_AND_UPDATE_STATUS \<and>
   raising_handler (ProcessException ''no such layer'') example_request
       (set_store (example_response STORE_STATUS))
     = (set_store (example_response STORE_STATUS), Raises (ProcessException ''no such layer'')) \<and>
   snd (execute (raising_handler (ProcessException ''no such layer'')) True example_request
          (example_response STORE_STATUS)) = Inl (NoApplicableCode ''Process error'' 424) \<and>
   hanging_handler example_request (set_store (example_response STORE_STATUS))
     = (set_store (example_response STORE_STATUS), Hangs) \<and>
   snd (execute hanging_handler True example_request (example_response STORE_STATUS))
     = Inl (NoApplicableCode ''Execute Timeout'' 424)"
proof -
  have s: "resp_status (example_response STORE_STATUS) \<noteq> STORE_AND_UPDATE_STATUS"
    by (simp add: example_response_def)
  have h1: "raising_handler (ProcessException ''no such layer'') example_request
       (set_store (example_response STORE_STATUS))
     = (set_store (example_response STORE_STATUS), Raises (ProcessException ''no such layer''))"
    by (simp add: raising_handler_def)
  have h2: "hanging_handler example_request (set_store (example_response STORE_STATUS))
     = (set_store (example_response STORE_STATUS), Hangs)"
    by (simp add: hanging_handler_def)
  from C6_execute_sync[where handler = "raising_handler (ProcessException ''no such layer'')"
         and in_time = True and m = "''no such layer''", OF s h1]
       C6_execute_sync[where handler = hanging_handler and in_time = True, OF s h2]
       s h1 h2
  show ?thesis by simp
qed

end
